theory Spec2Isabelle
  imports Main "HOL-Library.Sublist"
begin

section \<open>Python values and built-ins used by the message generator\<close>

text \<open>
  Strings are lists of 8-bit characters (code points 0 to 255). A Python \<open>dict\<close> is an
  association list with distinct keys, kept in insertion order. The only place of
  \<open>generate_messages\<close> that can raise is the subscript \<open>lst[idx]\<close> inside \<open>_safe\<close>.
\<close>

datatype error = IndexError | TypeError

text \<open>\<open>d.get(k, dflt)\<close>\<close>

definition dict_get :: "('k \<times> 'v) list \<Rightarrow> 'k \<Rightarrow> 'v \<Rightarrow> 'v" where
  "dict_get d k dflt = (case map_of d k of None \<Rightarrow> dflt | Some v \<Rightarrow> v)"

text \<open>\<open>d[k] = v\<close>: an existing key keeps its position, a new key goes last.\<close>

fun dict_set :: "('k \<times> 'v) list \<Rightarrow> 'k \<Rightarrow> 'v \<Rightarrow> ('k \<times> 'v) list" where
  "dict_set [] k v = [(k, v)]"
| "dict_set ((k', v') # d) k v =
     (if k' = k then (k', v) # d else (k', v') # dict_set d k v)"

text \<open>\<open>lst[idx]\<close>: a negative index counts from the end, out of range raises IndexError.\<close>

definition getitem :: "'a list \<Rightarrow> int \<Rightarrow> error + 'a" where
  "getitem lst idx =
     (let n = int (length lst); j = (if idx < 0 then n + idx else idx)
      in if 0 \<le> j \<and> j < n then Inr (lst ! nat j) else Inl IndexError)"

text \<open>\<open>x or dflt\<close> for an optional string: \<open>None\<close> and \<open>""\<close> are falsy.\<close>

definition py_or :: "string option \<Rightarrow> string \<Rightarrow> string" where
  "py_or x dflt = (case x of None \<Rightarrow> dflt | Some s \<Rightarrow> if s = [] then dflt else s)"

text \<open>\<open>str.isspace\<close> on the code points below 256, and \<open>str.strip()\<close>.\<close>

definition isspace :: "char \<Rightarrow> bool" where
  "isspace c \<longleftrightarrow> c \<in> {CHR 0x09, CHR 0x0A, CHR 0x0B, CHR 0x0C, CHR 0x0D,
                     CHR 0x1C, CHR 0x1D, CHR 0x1E, CHR 0x1F, CHR 0x20, CHR 0x85, CHR 0xA0}"

definition strip :: "string \<Rightarrow> string" where
  "strip s = rev (dropWhile isspace (rev (dropWhile isspace s)))"

text \<open>The decimal rendering of an \<open>int\<close> inside an f-string (\<open>str(n)\<close>).\<close>

definition digit_char :: "nat \<Rightarrow> char" where
  "digit_char d = ''0123456789'' ! (d mod 10)"

function str_nat :: "nat \<Rightarrow> string" where
  "str_nat n = (if n < 10 then [digit_char n] else str_nat (n div 10) @ [digit_char (n mod 10)])"
  by pat_completeness auto
termination
  by (relation "measure (\<lambda>n. n)") auto

definition str_int :: "int \<Rightarrow> string" where
  "str_int i = (if i < 0 then CHR ''-'' # str_nat (nat (- i)) else str_nat (nat i))"

section \<open>Domain: rules and templates\<close>

text \<open>
  \<open>RULES["event_types"]\<close> maps an event type to a dict with the single key
  \<open>"phrases"\<close>, which maps an audience to its phrase list.
\<close>

type_synonym phrases = "(string \<times> string list) list"

record rules =
  forbidden :: "string list"
  event_types :: "(string \<times> (string \<times> phrases) list) list"

definition RULES :: rules where
  "RULES = \<lparr>
     forbidden = [''panic'', ''blame'', ''speculation'',
                  ''jargon for passengers: METAR, TAF, NOTAM''],
     event_types = [
       (''weather'', [(''phrases'', [
          (''passenger'', [''due to adverse weather'',
                           ''your safety is our priority'',
                           ''we appreciate your patience'']),
          (''pilot'', [''expect delay due to weather in departure/arrival sector'',
                       ''monitor ATC advisory'']),
          (''staff'', [''coordinate gate and crew availability'',
                       ''update displays and inform gate agents''])])]),
       (''runway'', [(''phrases'', [
          (''passenger'', [''runway availability constraints'']),
          (''pilot'', [''runway closure/restriction in effect'']),
          (''staff'', [''redirect ground operations''])])]),
       (''technical'', [(''phrases'', [
          (''passenger'', [''aircraft requires a technical inspection'', ''for your safety'']),
          (''pilot'', [''maintenance in progress; stand by for new ETD'']),
          (''staff'', [''dispatch maintenance team and prepare equipment''])])])]\<rparr>"

definition SEVERITIES :: "string list" where
  "SEVERITIES = [''low'', ''medium'', ''high'', ''critical'']"

definition EVENT_TYPES :: "string list" where
  "EVENT_TYPES = map fst (event_types RULES)"

text \<open>
  The event dict, with the keys \<open>to_event\<close> writes. \<open>None\<close> is an absent key (for the
  fields read with \<open>event.get(k) or d\<close> also the value \<open>None\<close>, which behaves the same).
\<close>

record event =
  ev_event_type :: "string option"
  ev_severity :: "string option"
  ev_flight_no :: "string option"
  ev_origin :: "string option"
  ev_destination :: "string option"
  ev_eta_change_minutes :: "int option"
  ev_gate :: "string option"
  ev_runway :: "string option"
  ev_language :: "string option"
  ev_audiences :: "string list option"
  ev_notes :: "string option"

text \<open>
  \<open>_safe\<close>: the \<open>try\<close> block returns \<open>lst[idx]\<close>, the handler catches every exception
  and returns \<open>dflt\<close>. The two-argument call \<open>_safe(lst, idx)\<close> is \<open>safe lst idx ''''\<close>.
\<close>

definition safe :: "string list \<Rightarrow> int \<Rightarrow> string \<Rightarrow> error + string" where
  "safe lst idx dflt = (case getitem lst idx of Inr v \<Rightarrow> Inr v | Inl e \<Rightarrow> Inr dflt)"

text \<open>The three f-strings, with the phrase lookups as arguments in order of appearance.\<close>

definition passenger_fmt ::
  "string \<Rightarrow> string \<Rightarrow> string \<Rightarrow> string \<Rightarrow> string \<Rightarrow> string \<Rightarrow> string \<Rightarrow> string" where
  "passenger_fmt p0 flight_no dest eta_str p1 p2 gate =
     ''Attention passengers: '' @ p0 @ '' '' @
     ''affecting flight '' @ flight_no @ '' to '' @ dest @ ''. '' @
     ''Estimated delay: '' @ eta_str @ ''. '' @
     p1 @ ''. '' @ p2 @ '' '' @
     ''Please remain near gate '' @ gate @
     '' for updates. Thank you for your understanding.''"

definition pilot_fmt ::
  "string \<Rightarrow> string \<Rightarrow> string \<Rightarrow> string \<Rightarrow> string \<Rightarrow> string \<Rightarrow> string \<Rightarrow> string \<Rightarrow> string" where
  "pilot_fmt p0 flight_no severity p1 runway gate eta_str notes =
     p0 @ '' for '' @ flight_no @ ''. '' @
     ''Severity: '' @ severity @ ''. '' @ p1 @ '' '' @
     ''Runway: '' @ runway @ ''. Gate: '' @ gate @ ''. ETA change: '' @ eta_str @ ''. '' @
     ''Notes: '' @ notes @ ''.''"

definition staff_fmt ::
  "string \<Rightarrow> string \<Rightarrow> string \<Rightarrow> string \<Rightarrow> string \<Rightarrow> string \<Rightarrow> string \<Rightarrow> string \<Rightarrow> string" where
  "staff_fmt etype severity flight_no gate runway eta_str p0 p1 =
     ''Action required: event='' @ etype @ '', severity='' @ severity @
     '' for flight '' @ flight_no @ ''. '' @
     ''- Gate: '' @ gate @ '', Runway: '' @ runway @ '', ETA change: '' @ eta_str @ ''. '' @
     ''- Tasks: '' @ p0 @ '', '' @
     p1 @ ''. '' @
     ''- Comms: update FIDS, inform AOCC, and document actions in the log.''"

definition passenger_msg ::
  "string list \<Rightarrow> string \<Rightarrow> string \<Rightarrow> string \<Rightarrow> string \<Rightarrow> error + string" where
  "passenger_msg passenger_p flight_no dest eta_str gate =
     (case safe passenger_p 0 ''an operational delay'' of Inl e \<Rightarrow> Inl e | Inr p0 \<Rightarrow>
     (case safe passenger_p 1 '''' of Inl e \<Rightarrow> Inl e | Inr p1 \<Rightarrow>
     (case safe passenger_p 2 '''' of Inl e \<Rightarrow> Inl e | Inr p2 \<Rightarrow>
        Inr (strip (passenger_fmt p0 flight_no dest eta_str p1 p2 gate)))))"

definition pilot_msg ::
  "string list \<Rightarrow> string \<Rightarrow> string \<Rightarrow> string \<Rightarrow> string \<Rightarrow> string \<Rightarrow> string
     \<Rightarrow> error + string" where
  "pilot_msg pilot_p flight_no severity runway gate eta_str notes =
     (case safe pilot_p 0 ''operational delay in effect'' of Inl e \<Rightarrow> Inl e | Inr p0 \<Rightarrow>
     (case safe pilot_p 1 '''' of Inl e \<Rightarrow> Inl e | Inr p1 \<Rightarrow>
        Inr (strip (pilot_fmt p0 flight_no severity p1 runway gate eta_str notes))))"

definition staff_msg ::
  "string list \<Rightarrow> string \<Rightarrow> string \<Rightarrow> string \<Rightarrow> string \<Rightarrow> string \<Rightarrow> string
     \<Rightarrow> error + string" where
  "staff_msg staff_p etype severity flight_no gate runway eta_str =
     (case safe staff_p 0 ''coordinate impacted teams'' of Inl e \<Rightarrow> Inl e | Inr p0 \<Rightarrow>
     (case safe staff_p 1 ''notify affected parties'' of Inl e \<Rightarrow> Inl e | Inr p1 \<Rightarrow>
        Inr (strip (staff_fmt etype severity flight_no gate runway eta_str p0 p1))))"

text \<open>\<open>eta_str = f"{eta} minutes" if eta else "TBD"\<close>: \<open>None\<close> and \<open>0\<close> are falsy.\<close>

definition eta_string :: "int option \<Rightarrow> string" where
  "eta_string eta =
     (case eta of None \<Rightarrow> ''TBD''
      | Some n \<Rightarrow> if n \<noteq> 0 then str_int n @ '' minutes'' else ''TBD'')"

text \<open>The loop over the audiences, writing into \<open>outputs\<close>.\<close>

fun audience_loop ::
  "string \<Rightarrow> string \<Rightarrow> string \<Rightarrow> (string \<times> string) list \<Rightarrow> string list
     \<Rightarrow> (string \<times> string) list" where
  "audience_loop pm plm sm outputs [] = outputs"
| "audience_loop pm plm sm outputs (a # as) =
     audience_loop pm plm sm
       (if a = ''passenger'' then dict_set outputs a pm
        else if a = ''pilot'' then dict_set outputs a plm
        else if a = ''staff'' then dict_set outputs a sm
        else outputs) as"

text \<open>\<open>event.get("audiences", ["passenger", "pilot", "staff"])\<close>\<close>

definition requested :: "event \<Rightarrow> string list" where
  "requested event =
     (case ev_audiences event of None \<Rightarrow> [''passenger'', ''pilot'', ''staff''] | Some as \<Rightarrow> as)"

text \<open>
  \<open>generate_messages\<close> reads the module-level \<open>RULES\<close>; \<open>messages\<close> and
  \<open>generate_messages_with\<close> take the value of that global as an argument. \<open>messages\<close> is
  the first part of the body (the local variables and the three messages), the loop over
  the audiences is the second.
\<close>

definition messages :: "rules \<Rightarrow> event \<Rightarrow> error + (string \<times> string \<times> string)" where
  "messages R event =
     (let etype = (case ev_event_type event of None \<Rightarrow> '''' | Some t \<Rightarrow> t);
          phrases = dict_get (dict_get (event_types R) etype []) ''phrases'' [];
          passenger_p = dict_get phrases ''passenger'' [];
          pilot_p = dict_get phrases ''pilot'' [];
          staff_p = dict_get phrases ''staff'' [];
          flight_no = py_or (ev_flight_no event) ''N/A'';
          dest = py_or (ev_destination event) ''your destination'';
          gate = py_or (ev_gate event) ''the assigned gate'';
          runway = py_or (ev_runway event) ''TBD'';
          severity = py_or (ev_severity event) ''medium'';
          eta_str = eta_string (ev_eta_change_minutes event);
          notes = py_or (ev_notes event) ''N/A''
      in (case passenger_msg passenger_p flight_no dest eta_str gate of
           Inl e \<Rightarrow> Inl e
         | Inr pm \<Rightarrow>
        (case pilot_msg pilot_p flight_no severity runway gate eta_str notes of
           Inl e \<Rightarrow> Inl e
         | Inr plm \<Rightarrow>
        (case staff_msg staff_p etype severity flight_no gate runway eta_str of
           Inl e \<Rightarrow> Inl e
         | Inr sm \<Rightarrow> Inr (pm, plm, sm)))))"

definition generate_messages_with :: "rules \<Rightarrow> event \<Rightarrow> error + (string \<times> string) list" where
  "generate_messages_with R event =
     (case messages R event of
        Inl e \<Rightarrow> Inl e
      | Inr (pm, plm, sm) \<Rightarrow> Inr (audience_loop pm plm sm [] (requested event)))"

definition generate_messages :: "event \<Rightarrow> error + (string \<times> string) list" where
  "generate_messages event = generate_messages_with RULES event"

section \<open>The form and its event\<close>

record EventForm =
  form_event_type :: string
  form_severity :: string
  form_flight_no :: string
  form_origin :: string
  form_destination :: string
  form_eta_change_minutes :: int
  form_gate :: string
  form_runway :: string
  form_notes :: string
  audience_passenger :: bool
  audience_pilot :: bool
  audience_staff :: bool

text \<open>\<open>s or None\<close>\<close>

definition or_None :: "string \<Rightarrow> string option" where
  "or_None s = (if s = [] then None else Some s)"

text \<open>
  \<open>to_event\<close>. The field \<open>eta_change_minutes\<close> is an \<open>int\<close>, whose \<open>str\<close> is never blank,
  so the conditional takes \<open>int(self.eta_change_minutes)\<close>.
\<close>

definition to_event :: "EventForm \<Rightarrow> event" where
  "to_event self =
     (let audiences = (if audience_passenger self then [''passenger''] else []) @
                      (if audience_pilot self then [''pilot''] else []) @
                      (if audience_staff self then [''staff''] else [])
      in \<lparr>ev_event_type = Some (form_event_type self),
          ev_severity = Some (form_severity self),
          ev_flight_no = or_None (form_flight_no self),
          ev_origin = or_None (form_origin self),
          ev_destination = or_None (form_destination self),
          ev_eta_change_minutes =
            Some (if strip (str_int (form_eta_change_minutes self)) \<noteq> []
                  then form_eta_change_minutes self else 0),
          ev_gate = or_None (form_gate self),
          ev_runway = or_None (form_runway self),
          ev_language = Some ''en'',
          ev_audiences =
            Some (if audiences = [] then [''passenger'', ''pilot'', ''staff''] else audiences),
          ev_notes = or_None (form_notes self)\<rparr>)"

section \<open>The call on the object store\<close>

text \<open>
  Python passes \<open>event\<close> by reference and \<open>RULES\<close> is a module-level object, so a call
  could change either. The store is a list of objects, a reference is a position in it,
  and \<open>outputs = {}\<close> allocates at the end.
\<close>

datatype pyobj = Rules rules | Event event | Dict "(string \<times> string) list"

definition deref :: "pyobj list \<Rightarrow> nat \<Rightarrow> pyobj option" where
  "deref h r = (if r < length h then Some (h ! r) else None)"

text \<open>\<open>outputs[k] = v\<close> through the reference \<open>r\<close>\<close>

definition store :: "nat \<Rightarrow> string \<Rightarrow> string \<Rightarrow> pyobj list \<Rightarrow> (error + unit) \<times> pyobj list" where
  "store r k v h =
     (case deref h r of
        Some (Dict d) \<Rightarrow> (Inr (), h[r := Dict (dict_set d k v)])
      | _ \<Rightarrow> (Inl TypeError, h))"

fun audience_loop_h ::
  "string \<Rightarrow> string \<Rightarrow> string \<Rightarrow> nat \<Rightarrow> string list \<Rightarrow> pyobj list
     \<Rightarrow> (error + unit) \<times> pyobj list" where
  "audience_loop_h pm plm sm outputs [] h = (Inr (), h)"
| "audience_loop_h pm plm sm outputs (a # as) h =
     (case (if a = ''passenger'' then store outputs a pm h
            else if a = ''pilot'' then store outputs a plm h
            else if a = ''staff'' then store outputs a sm h
            else (Inr (), h)) of
        (Inl e, h') \<Rightarrow> (Inl e, h')
      | (Inr u, h') \<Rightarrow> audience_loop_h pm plm sm outputs as h')"

text \<open>
  \<open>generate_messages(event)\<close> with \<open>RULES\<close> bound to the object at \<open>rules_ref\<close> and the
  argument to the object at \<open>event_ref\<close>; the result is the reference to \<open>outputs\<close>.
\<close>

definition generate_messages_h ::
  "nat \<Rightarrow> nat \<Rightarrow> pyobj list \<Rightarrow> (error + nat) \<times> pyobj list" where
  "generate_messages_h rules_ref event_ref h =
     (case (deref h rules_ref, deref h event_ref) of
        (Some (Rules R), Some (Event event)) \<Rightarrow>
          (case messages R event of
             Inl e \<Rightarrow> (Inl e, h)
           | Inr (pm, plm, sm) \<Rightarrow>
               (let outputs = length h; h1 = h @ [Dict []]
                in (case audience_loop_h pm plm sm outputs (requested event) h1 of
                      (Inl e, h2) \<Rightarrow> (Inl e, h2)
                    | (Inr u, h2) \<Rightarrow> (Inr outputs, h2))))
      | _ \<Rightarrow> (Inl TypeError, h))"

section \<open>The example event of the specification\<close>

definition example_event :: event where
  "example_event =
     \<lparr>ev_event_type = Some ''weather'', ev_severity = None, ev_flight_no = Some ''AI-320'',
      ev_origin = None, ev_destination = Some ''BOM'', ev_eta_change_minutes = Some 45,
      ev_gate = Some ''A7'', ev_runway = None, ev_language = None,
      ev_audiences = Some [''passenger''], ev_notes = None\<rparr>"

section \<open>Dictionaries, the audience loop and \<open>strip\<close>\<close>

lemma map_of_dict_set: "map_of (dict_set d k v) = (map_of d)(k \<mapsto> v)"
  by (induction d k v rule: dict_set.induct) auto

lemma keys_dict_set: "fst ` set (dict_set d k v) = insert k (fst ` set d)"
  by (induction d k v rule: dict_set.induct) auto

lemma distinct_dict_set: "distinct (map fst d) \<Longrightarrow> distinct (map fst (dict_set d k v))"
proof (induction d k v rule: dict_set.induct)
  case (1 k v)
  then show ?case by simp
next
  case (2 k' v' d k v)
  show ?case
  proof (cases "k' = k")
    case True
    with 2 show ?thesis by simp
  next
    case False
    from 2 have "k' \<notin> fst ` set d" by simp
    with False have "k' \<notin> fst ` set (dict_set d k v)" by (simp add: keys_dict_set)
    with 2 False show ?thesis by simp
  qed
qed

lemma map_of_audience_loop:
  "map_of (audience_loop pm plm sm outputs as) a =
     (if a \<in> set as \<and> a \<in> {''passenger'', ''pilot'', ''staff''}
      then (if a = ''passenger'' then Some pm else if a = ''pilot'' then Some plm else Some sm)
      else map_of outputs a)"
proof (induction as arbitrary: outputs)
  case Nil
  show ?case by simp
next
  case (Cons b as)
  show ?case
    unfolding audience_loop.simps Cons.IH
    by (auto simp: map_of_dict_set)
qed

lemma keys_audience_loop:
  "fst ` set (audience_loop pm plm sm outputs as) =
     fst ` set outputs \<union> (set as \<inter> {''passenger'', ''pilot'', ''staff''})"
  by (induction as arbitrary: outputs) (auto simp: keys_dict_set)

lemma distinct_audience_loop:
  "distinct (map fst outputs) \<Longrightarrow> distinct (map fst (audience_loop pm plm sm outputs as))"
  by (induction as arbitrary: outputs) (simp_all add: distinct_dict_set)

lemma strip_id:
  assumes "s \<noteq> []" and "\<not> isspace (hd s)" and "\<not> isspace (last s)"
  shows "strip s = s"
proof -
  from assms(1,2) have a: "dropWhile isspace s = s"
    by (cases s) simp_all
  from assms(1) have "rev s \<noteq> []" by simp
  moreover from assms(1,3) have "\<not> isspace (hd (rev s))" by (simp add: hd_rev)
  ultimately have b: "dropWhile isspace (rev s) = rev s"
    by (cases "rev s") simp_all
  show ?thesis by (simp add: strip_def a b)
qed

section \<open>The lookups and the messages\<close>

lemma safe_total: "\<exists>v. safe lst idx d = Inr v"
  by (simp add: safe_def split: sum.splits)

lemma safe_beyond: "int (length lst) \<le> idx \<Longrightarrow> safe lst idx d = Inr d"
  by (simp add: safe_def getitem_def Let_def)

lemma getitem_beyond: "int (length lst) \<le> idx \<Longrightarrow> getitem lst idx = Inl IndexError"
  by (simp add: getitem_def Let_def)

lemma strip_passenger_fmt: "strip (passenger_fmt p0 f d e p1 p2 g) = passenger_fmt p0 f d e p1 p2 g"
  by (rule strip_id) (simp_all add: passenger_fmt_def isspace_def)

lemma strip_staff_fmt: "strip (staff_fmt t s f g r e p0 p1) = staff_fmt t s f g r e p0 p1"
  by (rule strip_id) (simp_all add: staff_fmt_def isspace_def)

lemma strip_pilot_fmt:
  "p0 \<noteq> [] \<Longrightarrow> \<not> isspace (hd p0) \<Longrightarrow> strip (pilot_fmt p0 f s p1 r g e n) = pilot_fmt p0 f s p1 r g e n"
  by (rule strip_id) (simp_all add: pilot_fmt_def isspace_def)

lemma passenger_p_RULES:
  "dict_get (dict_get (dict_get (event_types RULES) t []) ''phrases'' []) ''passenger'' [] =
     (if t = ''weather'' then [''due to adverse weather'', ''your safety is our priority'',
                               ''we appreciate your patience'']
      else if t = ''runway'' then [''runway availability constraints'']
      else if t = ''technical'' then [''aircraft requires a technical inspection'',
                                      ''for your safety'']
      else [])"
  by (simp add: RULES_def dict_get_def)

lemma pilot_p_RULES:
  "dict_get (dict_get (dict_get (event_types RULES) t []) ''phrases'' []) ''pilot'' [] =
     (if t = ''weather'' then [''expect delay due to weather in departure/arrival sector'',
                               ''monitor ATC advisory'']
      else if t = ''runway'' then [''runway closure/restriction in effect'']
      else if t = ''technical'' then [''maintenance in progress; stand by for new ETD'']
      else [])"
  by (simp add: RULES_def dict_get_def)

lemma staff_p_RULES:
  "dict_get (dict_get (dict_get (event_types RULES) t []) ''phrases'' []) ''staff'' [] =
     (if t = ''weather'' then [''coordinate gate and crew availability'',
                               ''update displays and inform gate agents'']
      else if t = ''runway'' then [''redirect ground operations'']
      else if t = ''technical'' then [''dispatch maintenance team and prepare equipment'']
      else [])"
  by (simp add: RULES_def dict_get_def)

lemmas msg_defs = passenger_msg_def pilot_msg_def staff_msg_def safe_def getitem_def
  passenger_p_RULES pilot_p_RULES staff_p_RULES
  strip_passenger_fmt strip_staff_fmt strip_pilot_fmt isspace_def

lemma messages_RULES:
  fixes ev :: event
  defines "T \<equiv> (case ev_event_type ev of None \<Rightarrow> '''' | Some t \<Rightarrow> t)"
    and "F \<equiv> py_or (ev_flight_no ev) ''N/A''"
    and "D \<equiv> py_or (ev_destination ev) ''your destination''"
    and "G \<equiv> py_or (ev_gate ev) ''the assigned gate''"
    and "RW \<equiv> py_or (ev_runway ev) ''TBD''"
    and "S \<equiv> py_or (ev_severity ev) ''medium''"
    and "E \<equiv> eta_string (ev_eta_change_minutes ev)"
    and "N \<equiv> py_or (ev_notes ev) ''N/A''"
  shows "\<exists>p0 p1 p2 q0 q1 s0 s1.
     messages RULES ev =
       Inr (passenger_fmt p0 F D E p1 p2 G, pilot_fmt q0 F S q1 RW G E N,
            staff_fmt T S F G RW E s0 s1)"
  unfolding messages_def Let_def T_def [symmetric] F_def [symmetric] D_def [symmetric]
    G_def [symmetric] RW_def [symmetric] S_def [symmetric] E_def [symmetric] N_def [symmetric]
  by (simp add: msg_defs) blast

lemma messages_RULES_unknown:
  assumes "t \<notin> {''weather'', ''runway'', ''technical''}"
    and "ev_event_type ev = Some t \<or> (ev_event_type ev = None \<and> t = '''')"
  shows "messages RULES ev =
     Inr (passenger_fmt ''an operational delay'' (py_or (ev_flight_no ev) ''N/A'')
            (py_or (ev_destination ev) ''your destination'')
            (eta_string (ev_eta_change_minutes ev)) '''' ''''
            (py_or (ev_gate ev) ''the assigned gate''),
          pilot_fmt ''operational delay in effect'' (py_or (ev_flight_no ev) ''N/A'')
            (py_or (ev_severity ev) ''medium'') '''' (py_or (ev_runway ev) ''TBD'')
            (py_or (ev_gate ev) ''the assigned gate'')
            (eta_string (ev_eta_change_minutes ev)) (py_or (ev_notes ev) ''N/A''),
          staff_fmt t (py_or (ev_severity ev) ''medium'') (py_or (ev_flight_no ev) ''N/A'')
            (py_or (ev_gate ev) ''the assigned gate'') (py_or (ev_runway ev) ''TBD'')
            (eta_string (ev_eta_change_minutes ev))
            ''coordinate impacted teams'' ''notify affected parties'')"
  using assms unfolding messages_def Let_def
  by (auto simp: msg_defs)

lemma messages_total: "\<exists>pm plm sm. messages R ev = Inr (pm, plm, sm)"
  by (simp add: messages_def Let_def passenger_msg_def pilot_msg_def staff_msg_def safe_def
      split: sum.splits)

section \<open>The generator and its call on the store\<close>

lemma generate_messages_with_eq:
  "messages R ev = Inr (pm, plm, sm) \<Longrightarrow>
     generate_messages_with R ev = Inr (audience_loop pm plm sm [] (requested ev))"
  by (simp add: generate_messages_with_def)

lemma generate_messages_with_total: "\<exists>outputs. generate_messages_with R ev = Inr outputs"
  using messages_total [of R ev] by (auto simp: generate_messages_with_def)

lemma store_Dict:
  "deref h r = Some (Dict d) \<Longrightarrow> store r k v h = (Inr (), h[r := Dict (dict_set d k v)])"
  by (simp add: store_def)

lemma audience_loop_h_Dict:
  "deref h r = Some (Dict d) \<Longrightarrow>
     audience_loop_h pm plm sm r as h = (Inr (), h[r := Dict (audience_loop pm plm sm d as)])"
proof (induction as arbitrary: h d)
  case Nil
  then have "h ! r = Dict d"
    by (simp add: deref_def split: if_splits)
  then have "h[r := Dict d] = h"
    using list_update_id [of h r] by simp
  then show ?case by simp
next
  case (Cons a as)
  have upd: "deref (h[r := Dict d']) r = Some (Dict d')" for d'
    using Cons.prems by (auto simp: deref_def split: if_splits)
  show ?case
    using Cons.prems Cons.IH [OF upd] Cons.IH [OF Cons.prems]
    by (simp add: store_Dict)
qed

lemma generate_messages_h_eq:
  assumes "deref h rules_ref = Some (Rules R)" and "deref h event_ref = Some (Event ev)"
    and "generate_messages_with R ev = Inr outputs"
  shows "generate_messages_h rules_ref event_ref h = (Inr (length h), h @ [Dict outputs])"
proof -
  obtain pm plm sm where m: "messages R ev = Inr (pm, plm, sm)"
    using messages_total by blast
  with assms(3) have out: "outputs = audience_loop pm plm sm [] (requested ev)"
    by (simp add: generate_messages_with_def)
  have "deref (h @ [Dict []]) (length h) = Some (Dict [])"
    by (simp add: deref_def)
  then have "audience_loop_h pm plm sm (length h) (requested ev) (h @ [Dict []]) =
      (Inr (), (h @ [Dict []])[length h := Dict outputs])"
    unfolding out by (rule audience_loop_h_Dict)
  then show ?thesis
    using assms(1,2) m by (simp add: generate_messages_h_def Let_def)
qed

lemma store_frame:
  "store r k v h = (res, h') \<Longrightarrow> length h' = length h \<and> (\<forall>a. a \<noteq> r \<longrightarrow> h' ! a = h ! a)"
  by (auto simp: store_def split: option.splits pyobj.splits)

lemma audience_loop_h_frame:
  "audience_loop_h pm plm sm r as h = (res, h') \<Longrightarrow>
     length h' = length h \<and> (\<forall>a. a \<noteq> r \<longrightarrow> h' ! a = h ! a)"
proof (induction as arbitrary: h)
  case Nil
  then show ?case by simp
next
  case (Cons a as)
  obtain res1 h1 where s: "(if a = ''passenger'' then store r a pm h
            else if a = ''pilot'' then store r a plm h
            else if a = ''staff'' then store r a sm h
            else (Inr (), h)) = (res1, h1)"
    by (cases "(if a = ''passenger'' then store r a pm h
            else if a = ''pilot'' then store r a plm h
            else if a = ''staff'' then store r a sm h
            else (Inr (), h))") blast
  then have f1: "length h1 = length h \<and> (\<forall>a. a \<noteq> r \<longrightarrow> h1 ! a = h ! a)"
    by (auto split: if_splits dest: store_frame)
  show ?case
  proof (cases res1)
    case (Inl e)
    with Cons.prems s have "h' = h1" by (simp del: audience_loop_h.simps(2) add: audience_loop_h.simps(2) [of pm plm sm r a as h])
    with f1 show ?thesis by simp
  next
    case (Inr u)
    with Cons.prems s have "audience_loop_h pm plm sm r as h1 = (res, h')" by simp
    from Cons.IH [OF this] f1 show ?thesis by simp
  qed
qed

lemma generate_messages_h_frame:
  assumes "generate_messages_h rules_ref event_ref h = (res, h')"
  shows "length h \<le> length h' \<and> (\<forall>r < length h. h' ! r = h ! r)"
proof (cases "\<exists>R ev. deref h rules_ref = Some (Rules R) \<and> deref h event_ref = Some (Event ev)")
  case True
  then obtain R ev where d: "deref h rules_ref = Some (Rules R)" "deref h event_ref = Some (Event ev)"
    by blast
  obtain outputs where "generate_messages_with R ev = Inr outputs"
    using generate_messages_with_total by blast
  from generate_messages_h_eq [OF d this] assms have "h' = h @ [Dict outputs]" by simp
  then show ?thesis by (simp add: nth_append)
next
  case False
  then have "generate_messages_h rules_ref event_ref h = (Inl TypeError, h)"
    by (auto simp: generate_messages_h_def split: option.splits pyobj.splits)
  with assms show ?thesis by simp
qed

section \<open>The worked example\<close>

lemma str_int_45: "str_int 45 = ''45''"
  by (simp add: str_int_def digit_char_def)

lemma example_messages:
  "messages RULES example_event =
     Inr (passenger_fmt ''due to adverse weather'' ''AI-320'' ''BOM'' ''45 minutes''
            ''your safety is our priority'' ''we appreciate your patience'' ''A7'',
          pilot_fmt ''expect delay due to weather in departure/arrival sector'' ''AI-320''
            ''medium'' ''monitor ATC advisory'' ''TBD'' ''A7'' ''45 minutes'' ''N/A'',
          staff_fmt ''weather'' ''medium'' ''AI-320'' ''A7'' ''TBD'' ''45 minutes''
            ''coordinate gate and crew availability''
            ''update displays and inform gate agents'')"
  unfolding messages_def Let_def
  by (simp add: msg_defs example_event_def py_or_def eta_string_def str_int_45)

lemma example_outputs:
  "generate_messages example_event =
     Inr [(''passenger'',
       ''Attention passengers: due to adverse weather affecting flight AI-320 to BOM. Estimated delay: 45 minutes. your safety is our priority. we appreciate your patience Please remain near gate A7 for updates. Thank you for your understanding.'')]"
  unfolding generate_messages_def generate_messages_with_def example_messages
  by (simp add: requested_def example_event_def passenger_fmt_def)

text \<open>
  C7: for the event with event type "weather", flight number "AI-320", destination "BOM",
  gate "A7", an ETA change of 45 minutes and the audiences \<open>{"passenger"}\<close>, the generator
  returns a mapping with the key "passenger" whose message contains "AI-320", "BOM",
  "45 minutes" and "A7".
\<close>

theorem example_passenger_message:
  "\<exists>outputs m. generate_messages example_event = Inr outputs \<and>
     map_of outputs ''passenger'' = Some m \<and>
     sublist ''AI-320'' m \<and> sublist ''BOM'' m \<and> sublist ''45 minutes'' m \<and> sublist ''A7'' m"
  unfolding example_outputs
  by (simp add: sublist_code)

section \<open>Frame and determinism of a call\<close>

lemma generate_messages_h_total:
  assumes "deref h rules_ref = Some (Rules R)" and "deref h event_ref = Some (Event ev)"
  shows "\<exists>outputs. generate_messages_with R ev = Inr outputs \<and>
     generate_messages_h rules_ref event_ref h = (Inr (length h), h @ [Dict outputs])"
proof -
  obtain outputs where o: "generate_messages_with R ev = Inr outputs"
    using generate_messages_with_total by blast
  from generate_messages_h_eq [OF assms o] o show ?thesis by blast
qed

lemma deref_append_old: "r < length h \<Longrightarrow> deref (h @ xs) r = deref h r"
  by (simp add: deref_def nth_append)

lemma deref_append_new: "deref (h @ [x]) (length h) = Some x"
  by (simp add: deref_def)

lemma deref_Some_less: "deref h r = Some x \<Longrightarrow> r < length h"
  by (simp add: deref_def split: if_splits)

text \<open>
  C9: the generator has no side effects. A call on a store that holds the rule table and
  the event returns, and afterwards the rule table, the event and every other object that
  existed before the call are unchanged; the only new object is the result mapping.
\<close>

theorem call_leaves_event_and_rules:
  assumes "deref h rules_ref = Some (Rules R)" and "deref h event_ref = Some (Event ev)"
  shows "\<exists>outputs_ref h'.
     generate_messages_h rules_ref event_ref h = (Inr outputs_ref, h') \<and>
     deref h' rules_ref = Some (Rules R) \<and> deref h' event_ref = Some (Event ev) \<and>
     (\<forall>r < length h. deref h' r = deref h r)"
proof -
  obtain outputs where
    c: "generate_messages_h rules_ref event_ref h = (Inr (length h), h @ [Dict outputs])"
    using generate_messages_h_total [OF assms] by blast
  have "deref (h @ [Dict outputs]) rules_ref = Some (Rules R)"
    using assms(1) deref_Some_less [OF assms(1)] by (simp add: deref_append_old)
  moreover have "deref (h @ [Dict outputs]) event_ref = Some (Event ev)"
    using assms(2) deref_Some_less [OF assms(2)] by (simp add: deref_append_old)
  moreover have "\<forall>r < length h. deref (h @ [Dict outputs]) r = deref h r"
    by (simp add: deref_append_old)
  ultimately show ?thesis using c by blast
qed

theorem call_leaves_event_and_rules_witness:
  "deref [Rules RULES, Event example_event] 0 = Some (Rules RULES) \<and>
   deref [Rules RULES, Event example_event] 1 = Some (Event example_event) \<and>
   deref (snd (generate_messages_h 0 1 [Rules RULES, Event example_event])) 0
     = Some (Rules RULES) \<and>
   deref (snd (generate_messages_h 0 1 [Rules RULES, Event example_event])) 1
     = Some (Event example_event)"
proof -
  have a: "deref [Rules RULES, Event example_event] 0 = Some (Rules RULES)"
    by (simp add: deref_def)
  have b: "deref [Rules RULES, Event example_event] 1 = Some (Event example_event)"
    by (simp add: deref_def)
  from call_leaves_event_and_rules [OF a b] a b show ?thesis by auto
qed

text \<open>
  C8: the generator is deterministic. Two calls one after the other, on the same event and
  the same rule table, both return, and the two result mappings (two distinct objects) have
  the same content, which is the value of the function on that event and rule table: no
  state is carried from the first call to the second.
\<close>

theorem two_calls_same_mapping:
  assumes "deref h rules_ref = Some (Rules R)" and "deref h event_ref = Some (Event ev)"
    and "generate_messages_h rules_ref event_ref h = (res1, h1)"
    and "generate_messages_h rules_ref event_ref h1 = (res2, h2)"
  shows "\<exists>out1 out2 outputs.
     res1 = Inr out1 \<and> res2 = Inr out2 \<and> out1 \<noteq> out2 \<and>
     generate_messages_with R ev = Inr outputs \<and>
     deref h2 out1 = Some (Dict outputs) \<and> deref h2 out2 = Some (Dict outputs)"
proof -
  obtain outputs where o: "generate_messages_with R ev = Inr outputs"
    and c1: "generate_messages_h rules_ref event_ref h = (Inr (length h), h @ [Dict outputs])"
    using generate_messages_h_total [OF assms(1,2)] by blast
  from c1 assms(3) have r1: "res1 = Inr (length h)" and h1: "h1 = h @ [Dict outputs]"
    by simp_all
  have d1: "deref h1 rules_ref = Some (Rules R)"
    using assms(1) deref_Some_less [OF assms(1)] by (simp add: h1 deref_append_old)
  have d2: "deref h1 event_ref = Some (Event ev)"
    using assms(2) deref_Some_less [OF assms(2)] by (simp add: h1 deref_append_old)
  have c2: "generate_messages_h rules_ref event_ref h1 = (Inr (length h1), h1 @ [Dict outputs])"
    by (rule generate_messages_h_eq [OF d1 d2 o])
  with assms(4) have r2: "res2 = Inr (length h1)" and h2: "h2 = h1 @ [Dict outputs]"
    by simp_all
  have "deref h2 (length h) = Some (Dict outputs)"
    by (simp add: h2 h1 deref_def nth_append)
  moreover have "deref h2 (length h1) = Some (Dict outputs)"
    unfolding h2 by (rule deref_append_new)
  moreover have "length h \<noteq> length h1"
    by (simp add: h1)
  ultimately show ?thesis
    using r1 r2 o by blast
qed

theorem two_calls_same_mapping_witness:
  "deref [Rules RULES, Event example_event] 0 = Some (Rules RULES) \<and>
   deref [Rules RULES, Event example_event] 1 = Some (Event example_event) \<and>
   fst (generate_messages_h 0 1 (snd (generate_messages_h 0 1 [Rules RULES, Event example_event])))
     \<noteq> fst (generate_messages_h 0 1 [Rules RULES, Event example_event]) \<and>
   (case fst (generate_messages_h 0 1 [Rules RULES, Event example_event]) of
      Inl e \<Rightarrow> None
    | Inr out1 \<Rightarrow>
        deref (snd (generate_messages_h 0 1
                 (snd (generate_messages_h 0 1 [Rules RULES, Event example_event])))) out1) =
   (case fst (generate_messages_h 0 1
               (snd (generate_messages_h 0 1 [Rules RULES, Event example_event]))) of
      Inl e \<Rightarrow> None
    | Inr out2 \<Rightarrow>
        deref (snd (generate_messages_h 0 1
                 (snd (generate_messages_h 0 1 [Rules RULES, Event example_event])))) out2)"
proof -
  let ?h = "[Rules RULES, Event example_event]"
  have a: "deref ?h 0 = Some (Rules RULES)"
    by (simp add: deref_def)
  have b: "deref ?h 1 = Some (Event example_event)"
    by (simp add: deref_def)
  obtain res1 h1 where c1: "generate_messages_h 0 1 ?h = (res1, h1)"
    by (cases "generate_messages_h 0 1 ?h") blast
  obtain res2 h2 where c2: "generate_messages_h 0 1 h1 = (res2, h2)"
    by (cases "generate_messages_h 0 1 h1") blast
  from two_calls_same_mapping [OF a b c1 c2] obtain out1 out2 outputs where
    "res1 = Inr out1" "res2 = Inr out2" "out1 \<noteq> out2"
    "deref h2 out1 = Some (Dict outputs)" "deref h2 out2 = Some (Dict outputs)"
    by blast
  with a b c1 c2 show ?thesis by simp
qed

section \<open>The keys of the result\<close>

lemma map_of_audience_loop_requested:
  assumes "set as \<subseteq> {''passenger'', ''pilot'', ''staff''}"
  shows "map_of (audience_loop pm plm sm [] as) a =
        (if a \<in> set as
         then Some (if a = ''passenger'' then pm else if a = ''pilot'' then plm else sm)
         else None)"
proof (cases "a \<in> set as")
  case True
  from assms True have "a \<in> {''passenger'', ''pilot'', ''staff''}" by (rule subsetD)
  with True show ?thesis
    unfolding map_of_audience_loop by simp
next
  case False
  then show ?thesis
    unfolding map_of_audience_loop by simp
qed

lemma keys_audience_loop_requested:
  assumes "set as \<subseteq> {''passenger'', ''pilot'', ''staff''}"
  shows "fst ` set (audience_loop pm plm sm [] as) = set as"
proof -
  have "fst ` set (audience_loop pm plm sm [] as) = set as \<inter> {''passenger'', ''pilot'', ''staff''}"
    by (simp add: keys_audience_loop)
  with assms show ?thesis by (simp only: Int_absorb2)
qed

lemma generate_messages_eq:
  "messages RULES ev = Inr (pm, plm, sm) \<Longrightarrow>
     generate_messages ev = Inr (audience_loop pm plm sm [] (requested ev))"
  unfolding generate_messages_def by (rule generate_messages_with_eq)

lemma to_event_requested:
  "requested (to_event form) =
     (if \<not> audience_passenger form \<and> \<not> audience_pilot form \<and> \<not> audience_staff form
      then [''passenger'', ''pilot'', ''staff'']
      else (if audience_passenger form then [''passenger''] else []) @
           (if audience_pilot form then [''pilot''] else []) @
           (if audience_staff form then [''staff''] else []))"
  unfolding to_event_def Let_def requested_def
  by (cases "audience_passenger form"; cases "audience_pilot form"; cases "audience_staff form")
     simp_all

lemma to_event_keys:
  "\<exists>outputs. generate_messages (to_event form) = Inr outputs \<and>
     map fst outputs = requested (to_event form)"
proof -
  obtain pm plm sm where m: "messages RULES (to_event form) = Inr (pm, plm, sm)"
    using messages_total by blast
  have "map fst (audience_loop pm plm sm [] (requested (to_event form))) = requested (to_event form)"
    unfolding to_event_requested
    by (cases "audience_passenger form"; cases "audience_pilot form"; cases "audience_staff form")
       simp_all
  with generate_messages_eq [OF m] show ?thesis by simp
qed

text \<open>
  C10: for every event the generator returns a mapping whose keys are a subset of
  \<open>{"passenger", "pilot", "staff"}\<close>: they are the requested audiences that are one of the
  three, any other string in the audiences list makes no entry and no error, and a
  repeated audience makes its key once.
\<close>

theorem result_keys_within_audiences:
  "\<exists>outputs. generate_messages ev = Inr outputs \<and>
     fst ` set outputs \<subseteq> {''passenger'', ''pilot'', ''staff''} \<and>
     fst ` set outputs = set (requested ev) \<inter> {''passenger'', ''pilot'', ''staff''} \<and>
     distinct (map fst outputs)"
proof -
  obtain pm plm sm where m: "messages RULES ev = Inr (pm, plm, sm)"
    using messages_total by blast
  define outputs where "outputs = audience_loop pm plm sm [] (requested ev)"
  have g: "generate_messages ev = Inr outputs"
    unfolding outputs_def by (rule generate_messages_eq [OF m])
  have k: "fst ` set outputs = set (requested ev) \<inter> {''passenger'', ''pilot'', ''staff''}"
    unfolding outputs_def by (simp add: keys_audience_loop)
  then have s: "fst ` set outputs \<subseteq> {''passenger'', ''pilot'', ''staff''}"
    by (simp only: Int_lower2)
  have d: "distinct (map fst outputs)"
    unfolding outputs_def by (rule distinct_audience_loop) simp
  show ?thesis
    by (intro exI [of _ outputs] conjI g s k d)
qed

text \<open>
  C1 as stated fails: an event whose audiences list is present and empty gets the empty
  mapping, not all three keys.
\<close>

theorem empty_audiences_counterexample:
  "ev_audiences (example_event\<lparr>ev_audiences := Some []\<rparr>) = Some [] \<and>
   generate_messages (example_event\<lparr>ev_audiences := Some []\<rparr>) = Inr [] \<and>
   fst ` set (projr (generate_messages (example_event\<lparr>ev_audiences := Some []\<rparr>)))
     \<noteq> {''passenger'', ''pilot'', ''staff''}"
proof -
  have "messages RULES (example_event\<lparr>ev_audiences := Some []\<rparr>) = messages RULES example_event"
    by (simp add: messages_def)
  then have "generate_messages (example_event\<lparr>ev_audiences := Some []\<rparr>) = Inr []"
    by (simp add: generate_messages_def generate_messages_with_def example_messages requested_def)
  then show ?thesis by simp
qed

text \<open>
  C1, amended: for every event whose requested audiences are a subset of
  \<open>{"passenger", "pilot", "staff"}\<close>, the generator returns a mapping whose keys are
  exactly the requested audiences, each mapped to its message, every other audience being
  absent; when the event has no audiences key the mapping has all three keys, and when the
  audiences list is present and empty the mapping is empty. \<open>to_event\<close> never passes an
  empty list: a form with no audience ticked yields all three keys.
\<close>

theorem requested_audiences_keys:
  assumes "set (requested ev) \<subseteq> {''passenger'', ''pilot'', ''staff''}"
  shows "\<exists>pm plm sm outputs.
     messages RULES ev = Inr (pm, plm, sm) \<and> generate_messages ev = Inr outputs \<and>
     fst ` set outputs = set (requested ev) \<and>
     (\<forall>a. map_of outputs a =
        (if a \<in> set (requested ev)
         then Some (if a = ''passenger'' then pm else if a = ''pilot'' then plm else sm)
         else None)) \<and>
     (ev_audiences ev = None \<longrightarrow> map fst outputs = [''passenger'', ''pilot'', ''staff'']) \<and>
     (ev_audiences ev = Some [] \<longrightarrow> outputs = []) \<and>
     (\<exists>outputs'. generate_messages (to_event form) = Inr outputs' \<and>
        map fst outputs' =
          (if \<not> audience_passenger form \<and> \<not> audience_pilot form \<and> \<not> audience_staff form
           then [''passenger'', ''pilot'', ''staff'']
           else (if audience_passenger form then [''passenger''] else []) @
                (if audience_pilot form then [''pilot''] else []) @
                (if audience_staff form then [''staff''] else [])))"
proof -
  obtain pm plm sm where m: "messages RULES ev = Inr (pm, plm, sm)"
    using messages_total by blast
  define outputs where "outputs = audience_loop pm plm sm [] (requested ev)"
  have g: "generate_messages ev = Inr outputs"
    unfolding outputs_def by (rule generate_messages_eq [OF m])
  have k: "fst ` set outputs = set (requested ev)"
    unfolding outputs_def by (rule keys_audience_loop_requested [OF assms])
  have v: "map_of outputs a =
        (if a \<in> set (requested ev)
         then Some (if a = ''passenger'' then pm else if a = ''pilot'' then plm else sm)
         else None)" for a
    unfolding outputs_def by (rule map_of_audience_loop_requested [OF assms])
  have n: "ev_audiences ev = None \<longrightarrow> map fst outputs = [''passenger'', ''pilot'', ''staff'']"
    by (simp add: outputs_def requested_def)
  have e: "ev_audiences ev = Some [] \<longrightarrow> outputs = []"
    by (simp add: outputs_def requested_def)
  have f: "\<exists>outputs'. generate_messages (to_event form) = Inr outputs' \<and>
        map fst outputs' =
          (if \<not> audience_passenger form \<and> \<not> audience_pilot form \<and> \<not> audience_staff form
           then [''passenger'', ''pilot'', ''staff'']
           else (if audience_passenger form then [''passenger''] else []) @
                (if audience_pilot form then [''pilot''] else []) @
                (if audience_staff form then [''staff''] else []))"
    using to_event_keys [of form] unfolding to_event_requested .
  show ?thesis
    by (intro exI [of _ pm] exI [of _ plm] exI [of _ sm] exI [of _ outputs] conjI allI
        m g k v n e f)
qed

theorem requested_audiences_keys_witness:
  "set (requested example_event) \<subseteq> {''passenger'', ''pilot'', ''staff''} \<and>
   fst ` set (projr (generate_messages example_event)) = {''passenger''} \<and>
   ev_audiences (example_event\<lparr>ev_audiences := None\<rparr>) = None \<and>
   map fst (projr (generate_messages (example_event\<lparr>ev_audiences := None\<rparr>)))
     = [''passenger'', ''pilot'', ''staff'']"
proof -
  have r: "requested example_event = [''passenger'']"
    by (simp add: requested_def example_event_def)
  then have a: "set (requested example_event) \<subseteq> {''passenger'', ''pilot'', ''staff''}"
    by simp
  have k: "fst ` set (projr (generate_messages example_event)) = {''passenger''}"
    using requested_audiences_keys [OF a, of undefined] r
    by (elim exE conjE) simp
  have n: "ev_audiences (example_event\<lparr>ev_audiences := None\<rparr>) = None"
    by simp
  then have s: "set (requested (example_event\<lparr>ev_audiences := None\<rparr>))
      \<subseteq> {''passenger'', ''pilot'', ''staff''}"
    by (simp add: requested_def)
  have m: "map fst (projr (generate_messages (example_event\<lparr>ev_audiences := None\<rparr>)))
      = [''passenger'', ''pilot'', ''staff'']"
    using requested_audiences_keys [OF s, of undefined] n
    by (elim exE conjE) simp
  from a k n m show ?thesis by (intro conjI)
qed

section \<open>What the messages contain\<close>

lemma sublist_passenger_flight: "sublist f (passenger_fmt p0 f d e p1 p2 g)"
  unfolding passenger_fmt_def sublist_def
  by (intro exI [of _ "''Attention passengers: '' @ p0 @ '' affecting flight ''"] exI) simp

lemma sublist_pilot_flight: "sublist f (pilot_fmt p0 f s p1 r g e n)"
  unfolding pilot_fmt_def sublist_def
  by (intro exI [of _ "p0 @ '' for ''"] exI) simp

lemma sublist_staff_flight: "sublist f (staff_fmt t s f g r e p0 p1)"
  unfolding staff_fmt_def sublist_def
  by (intro exI [of _ "''Action required: event='' @ t @ '', severity='' @ s @ '' for flight ''"]
      exI) simp

lemma sublist_passenger_eta:
  "sublist (''Estimated delay: '' @ e @ ''.'') (passenger_fmt p0 f d e p1 p2 g)"
  unfolding passenger_fmt_def sublist_def
  by (intro exI [of _ "''Attention passengers: '' @ p0 @ '' affecting flight '' @ f @ '' to '' @
        d @ ''. ''"] exI) simp

lemma sublist_pilot_eta: "sublist (''ETA change: '' @ e @ ''.'') (pilot_fmt p0 f s p1 r g e n)"
  unfolding pilot_fmt_def sublist_def
  by (intro exI [of _ "p0 @ '' for '' @ f @ ''. Severity: '' @ s @ ''. '' @ p1 @
        '' Runway: '' @ r @ ''. Gate: '' @ g @ ''. ''"] exI) simp

lemma sublist_staff_eta: "sublist (''ETA change: '' @ e @ ''.'') (staff_fmt t s f g r e p0 p1)"
  unfolding staff_fmt_def sublist_def
  by (intro exI [of _ "''Action required: event='' @ t @ '', severity='' @ s @
        '' for flight '' @ f @ ''. - Gate: '' @ g @ '', Runway: '' @ r @ '', ''"] exI) simp

lemma sublist_inner: "sublist (a @ x @ b) m \<Longrightarrow> sublist x m"
proof -
  assume m: "sublist (a @ x @ b) m"
  have "sublist x (a @ x @ b)" by (rule sublist_appendI)
  from this m show ?thesis by (rule sublist_order.order_trans)
qed

lemma fmt_nonempty:
  "passenger_fmt p0 f d e p1 p2 g \<noteq> []" "pilot_fmt q0 f s q1 r g e n \<noteq> []"
  "staff_fmt t s f g r e s0 s1 \<noteq> []"
  by (simp_all add: passenger_fmt_def pilot_fmt_def staff_fmt_def)

lemma generate_messages_lookup:
  assumes "messages RULES ev = Inr (pm, plm, sm)"
  shows "\<exists>outputs. generate_messages ev = Inr outputs \<and>
     map_of outputs ''passenger'' = (if ''passenger'' \<in> set (requested ev) then Some pm else None) \<and>
     map_of outputs ''pilot'' = (if ''pilot'' \<in> set (requested ev) then Some plm else None) \<and>
     map_of outputs ''staff'' = (if ''staff'' \<in> set (requested ev) then Some sm else None)"
proof -
  have "map_of (audience_loop pm plm sm [] (requested ev)) ''passenger'' =
      (if ''passenger'' \<in> set (requested ev) then Some pm else None)"
    unfolding map_of_audience_loop by simp
  moreover have "map_of (audience_loop pm plm sm [] (requested ev)) ''pilot'' =
      (if ''pilot'' \<in> set (requested ev) then Some plm else None)"
    unfolding map_of_audience_loop by simp
  moreover have "map_of (audience_loop pm plm sm [] (requested ev)) ''staff'' =
      (if ''staff'' \<in> set (requested ev) then Some sm else None)"
    unfolding map_of_audience_loop by simp
  ultimately show ?thesis
    using generate_messages_eq [OF assms] by blast
qed

lemma EVENT_TYPES_eq: "EVENT_TYPES = [''weather'', ''runway'', ''technical'']"
  by (simp add: EVENT_TYPES_def RULES_def)

lemma py_or_Some: "s \<noteq> [] \<Longrightarrow> py_or (Some s) d = s"
  by (simp add: py_or_def)

lemma eta_string_TBD:
  "eta = None \<or> eta = Some 0 \<Longrightarrow> eta_string eta = ''TBD''"
  by (auto simp: eta_string_def)

lemma eta_string_minutes: "n \<noteq> 0 \<Longrightarrow> eta_string (Some n) = str_int n @ '' minutes''"
  by (simp add: eta_string_def)

lemma eta_in_messages:
  "\<exists>pm plm sm. messages RULES ev = Inr (pm, plm, sm) \<and>
     sublist (''Estimated delay: '' @ eta_string (ev_eta_change_minutes ev) @ ''.'') pm \<and>
     sublist (''ETA change: '' @ eta_string (ev_eta_change_minutes ev) @ ''.'') plm \<and>
     sublist (''ETA change: '' @ eta_string (ev_eta_change_minutes ev) @ ''.'') sm"
proof -
  from messages_RULES [of ev] obtain p0 p1 p2 q0 q1 s0 s1 where
    r: "messages RULES ev =
       Inr (passenger_fmt p0 (py_or (ev_flight_no ev) ''N/A'')
              (py_or (ev_destination ev) ''your destination'')
              (eta_string (ev_eta_change_minutes ev)) p1 p2
              (py_or (ev_gate ev) ''the assigned gate''),
            pilot_fmt q0 (py_or (ev_flight_no ev) ''N/A'') (py_or (ev_severity ev) ''medium'')
              q1 (py_or (ev_runway ev) ''TBD'') (py_or (ev_gate ev) ''the assigned gate'')
              (eta_string (ev_eta_change_minutes ev)) (py_or (ev_notes ev) ''N/A''),
            staff_fmt (case ev_event_type ev of None \<Rightarrow> '''' | Some t \<Rightarrow> t)
              (py_or (ev_severity ev) ''medium'') (py_or (ev_flight_no ev) ''N/A'')
              (py_or (ev_gate ev) ''the assigned gate'') (py_or (ev_runway ev) ''TBD'')
              (eta_string (ev_eta_change_minutes ev)) s0 s1)"
    by blast
  show ?thesis
    by (intro exI conjI)
       (rule r sublist_passenger_eta sublist_pilot_eta sublist_staff_eta)+
qed

lemma flight_in_messages:
  "\<exists>pm plm sm. messages RULES ev = Inr (pm, plm, sm) \<and>
     pm \<noteq> [] \<and> plm \<noteq> [] \<and> sm \<noteq> [] \<and>
     sublist (py_or (ev_flight_no ev) ''N/A'') pm \<and>
     sublist (py_or (ev_flight_no ev) ''N/A'') plm \<and>
     sublist (py_or (ev_flight_no ev) ''N/A'') sm"
proof -
  from messages_RULES [of ev] obtain p0 p1 p2 q0 q1 s0 s1 where
    r: "messages RULES ev =
       Inr (passenger_fmt p0 (py_or (ev_flight_no ev) ''N/A'')
              (py_or (ev_destination ev) ''your destination'')
              (eta_string (ev_eta_change_minutes ev)) p1 p2
              (py_or (ev_gate ev) ''the assigned gate''),
            pilot_fmt q0 (py_or (ev_flight_no ev) ''N/A'') (py_or (ev_severity ev) ''medium'')
              q1 (py_or (ev_runway ev) ''TBD'') (py_or (ev_gate ev) ''the assigned gate'')
              (eta_string (ev_eta_change_minutes ev)) (py_or (ev_notes ev) ''N/A''),
            staff_fmt (case ev_event_type ev of None \<Rightarrow> '''' | Some t \<Rightarrow> t)
              (py_or (ev_severity ev) ''medium'') (py_or (ev_flight_no ev) ''N/A'')
              (py_or (ev_gate ev) ''the assigned gate'') (py_or (ev_runway ev) ''TBD'')
              (eta_string (ev_eta_change_minutes ev)) s0 s1)"
    by blast
  show ?thesis
    by (intro exI conjI)
       (rule r sublist_passenger_flight sublist_pilot_flight sublist_staff_flight fmt_nonempty)+
qed

text \<open>
  C4: for every event with a supported event type and a non-empty flight number, each of
  the three messages is a non-empty string that contains the flight number, and the
  result maps every requested audience to its message.
\<close>

theorem flight_number_in_every_message:
  assumes "ev_event_type ev = Some t" and "t \<in> set EVENT_TYPES"
    and "ev_flight_no ev = Some f" and "f \<noteq> []"
  shows "\<exists>pm plm sm outputs.
     messages RULES ev = Inr (pm, plm, sm) \<and>
     pm \<noteq> [] \<and> sublist f pm \<and> plm \<noteq> [] \<and> sublist f plm \<and> sm \<noteq> [] \<and> sublist f sm \<and>
     generate_messages ev = Inr outputs \<and>
     map_of outputs ''passenger'' = (if ''passenger'' \<in> set (requested ev) then Some pm else None) \<and>
     map_of outputs ''pilot'' = (if ''pilot'' \<in> set (requested ev) then Some plm else None) \<and>
     map_of outputs ''staff'' = (if ''staff'' \<in> set (requested ev) then Some sm else None)"
proof -
  have f: "py_or (ev_flight_no ev) ''N/A'' = f"
    using assms(3,4) by (simp add: py_or_Some)
  obtain pm plm sm where m: "messages RULES ev = Inr (pm, plm, sm)"
    and c: "pm \<noteq> []" "plm \<noteq> []" "sm \<noteq> []" "sublist f pm" "sublist f plm" "sublist f sm"
    using flight_in_messages [of ev] unfolding f by blast
  obtain outputs where g: "generate_messages ev = Inr outputs"
    and l: "map_of outputs ''passenger'' = (if ''passenger'' \<in> set (requested ev) then Some pm else None)"
      "map_of outputs ''pilot'' = (if ''pilot'' \<in> set (requested ev) then Some plm else None)"
      "map_of outputs ''staff'' = (if ''staff'' \<in> set (requested ev) then Some sm else None)"
    using generate_messages_lookup [OF m] by blast
  show ?thesis
    by (intro exI [of _ pm] exI [of _ plm] exI [of _ sm] exI [of _ outputs] conjI m c g l)
qed

theorem flight_number_in_every_message_witness:
  "ev_event_type (example_event\<lparr>ev_audiences := None\<rparr>) = Some ''weather'' \<and>
   ''weather'' \<in> set EVENT_TYPES \<and>
   ev_flight_no (example_event\<lparr>ev_audiences := None\<rparr>) = Some ''AI-320'' \<and>
   ''AI-320'' \<noteq> [] \<and>
   (case map_of (projr (generate_messages (example_event\<lparr>ev_audiences := None\<rparr>))) ''pilot'' of
      None \<Rightarrow> False | Some m \<Rightarrow> m \<noteq> [] \<and> sublist ''AI-320'' m)"
proof -
  let ?e = "example_event\<lparr>ev_audiences := None\<rparr>"
  have a: "ev_event_type ?e = Some ''weather''" by (simp add: example_event_def)
  have b: "''weather'' \<in> set EVENT_TYPES" by (simp add: EVENT_TYPES_eq)
  have c: "ev_flight_no ?e = Some ''AI-320''" by (simp add: example_event_def)
  have d: "''AI-320'' \<noteq> []" by simp
  have r: "''pilot'' \<in> set (requested ?e)" by (simp add: requested_def)
  have "case map_of (projr (generate_messages ?e)) ''pilot'' of
      None \<Rightarrow> False | Some m \<Rightarrow> m \<noteq> [] \<and> sublist ''AI-320'' m"
    using flight_number_in_every_message [OF a b c d] r
    by (elim exE conjE) simp
  with a b c d show ?thesis by (intro conjI)
qed

text \<open>
  C2: for every event whose \<open>eta_change_minutes\<close> is absent or zero, each of the three
  messages (all of them reference the ETA) contains "TBD", as the value of its ETA field;
  for every event whose \<open>eta_change_minutes\<close> is a positive integer \<open>n\<close>, each of them
  contains the decimal rendering of \<open>n\<close> followed by " minutes" instead. The result maps
  every requested audience to its message.
\<close>

theorem eta_rendering:
  "\<exists>pm plm sm outputs.
     messages RULES ev = Inr (pm, plm, sm) \<and>
     generate_messages ev = Inr outputs \<and>
     map_of outputs ''passenger'' = (if ''passenger'' \<in> set (requested ev) then Some pm else None) \<and>
     map_of outputs ''pilot'' = (if ''pilot'' \<in> set (requested ev) then Some plm else None) \<and>
     map_of outputs ''staff'' = (if ''staff'' \<in> set (requested ev) then Some sm else None) \<and>
     (ev_eta_change_minutes ev = None \<or> ev_eta_change_minutes ev = Some 0 \<longrightarrow>
        sublist ''TBD'' pm \<and> sublist ''TBD'' plm \<and> sublist ''TBD'' sm \<and>
        sublist ''Estimated delay: TBD.'' pm \<and> sublist ''ETA change: TBD.'' plm \<and>
        sublist ''ETA change: TBD.'' sm) \<and>
     (0 < n \<and> ev_eta_change_minutes ev = Some n \<longrightarrow>
        sublist (str_int n @ '' minutes'') pm \<and> sublist (str_int n @ '' minutes'') plm \<and>
        sublist (str_int n @ '' minutes'') sm \<and>
        sublist (''Estimated delay: '' @ str_int n @ '' minutes.'') pm \<and>
        sublist (''ETA change: '' @ str_int n @ '' minutes.'') plm \<and>
        sublist (''ETA change: '' @ str_int n @ '' minutes.'') sm)"
proof -
  define E where "E = eta_string (ev_eta_change_minutes ev)"
  obtain pm plm sm where m: "messages RULES ev = Inr (pm, plm, sm)"
    and p: "sublist (''Estimated delay: '' @ E @ ''.'') pm"
    and q: "sublist (''ETA change: '' @ E @ ''.'') plm"
    and s: "sublist (''ETA change: '' @ E @ ''.'') sm"
    using eta_in_messages [of ev] unfolding E_def by blast
  obtain outputs where g: "generate_messages ev = Inr outputs"
    and l: "map_of outputs ''passenger'' = (if ''passenger'' \<in> set (requested ev) then Some pm else None)"
      "map_of outputs ''pilot'' = (if ''pilot'' \<in> set (requested ev) then Some plm else None)"
      "map_of outputs ''staff'' = (if ''staff'' \<in> set (requested ev) then Some sm else None)"
    using generate_messages_lookup [OF m] by blast
  have e: "sublist E pm" "sublist E plm" "sublist E sm"
    by (rule sublist_inner [OF p] sublist_inner [OF q] sublist_inner [OF s])+
  have tbd: "ev_eta_change_minutes ev = None \<or> ev_eta_change_minutes ev = Some 0 \<longrightarrow>
        sublist ''TBD'' pm \<and> sublist ''TBD'' plm \<and> sublist ''TBD'' sm \<and>
        sublist ''Estimated delay: TBD.'' pm \<and> sublist ''ETA change: TBD.'' plm \<and>
        sublist ''ETA change: TBD.'' sm"
  proof
    assume "ev_eta_change_minutes ev = None \<or> ev_eta_change_minutes ev = Some 0"
    then have "E = ''TBD''" unfolding E_def by (rule eta_string_TBD)
    with e p q s show "sublist ''TBD'' pm \<and> sublist ''TBD'' plm \<and> sublist ''TBD'' sm \<and>
        sublist ''Estimated delay: TBD.'' pm \<and> sublist ''ETA change: TBD.'' plm \<and>
        sublist ''ETA change: TBD.'' sm"
      by simp
  qed
  have mins: "0 < n \<and> ev_eta_change_minutes ev = Some n \<longrightarrow>
        sublist (str_int n @ '' minutes'') pm \<and> sublist (str_int n @ '' minutes'') plm \<and>
        sublist (str_int n @ '' minutes'') sm \<and>
        sublist (''Estimated delay: '' @ str_int n @ '' minutes.'') pm \<and>
        sublist (''ETA change: '' @ str_int n @ '' minutes.'') plm \<and>
        sublist (''ETA change: '' @ str_int n @ '' minutes.'') sm"
  proof
    assume a: "0 < n \<and> ev_eta_change_minutes ev = Some n"
    then have "n \<noteq> 0" by simp
    then have "eta_string (Some n) = str_int n @ '' minutes''" by (rule eta_string_minutes)
    with a have "E = str_int n @ '' minutes''" by (simp add: E_def)
    with e p q s show "sublist (str_int n @ '' minutes'') pm \<and>
        sublist (str_int n @ '' minutes'') plm \<and>
        sublist (str_int n @ '' minutes'') sm \<and>
        sublist (''Estimated delay: '' @ str_int n @ '' minutes.'') pm \<and>
        sublist (''ETA change: '' @ str_int n @ '' minutes.'') plm \<and>
        sublist (''ETA change: '' @ str_int n @ '' minutes.'') sm"
      by simp
  qed
  show ?thesis
    by (intro exI [of _ pm] exI [of _ plm] exI [of _ sm] exI [of _ outputs] conjI m g l tbd mins)
qed

theorem eta_rendering_witness:
  "0 < (45::int) \<and> ev_eta_change_minutes example_event = Some 45 \<and>
   str_int 45 = ''45'' \<and>
   (case map_of (projr (generate_messages example_event)) ''passenger'' of
      None \<Rightarrow> False | Some m \<Rightarrow> sublist (str_int 45 @ '' minutes'') m) \<and>
   ev_eta_change_minutes (example_event\<lparr>ev_eta_change_minutes := Some 0\<rparr>) = Some 0 \<and>
   (case map_of (projr (generate_messages (example_event\<lparr>ev_eta_change_minutes := Some 0\<rparr>)))
           ''passenger'' of
      None \<Rightarrow> False | Some m \<Rightarrow> sublist ''TBD'' m)"
proof -
  let ?z = "example_event\<lparr>ev_eta_change_minutes := Some 0\<rparr>"
  have a: "0 < (45::int) \<and> ev_eta_change_minutes example_event = Some 45"
    by (simp add: example_event_def)
  have r: "''passenger'' \<in> set (requested example_event)"
    by (simp add: requested_def example_event_def)
  have x: "case map_of (projr (generate_messages example_event)) ''passenger'' of
      None \<Rightarrow> False | Some m \<Rightarrow> sublist (str_int 45 @ '' minutes'') m"
    using eta_rendering [of example_event 45] a r
    by (elim exE conjE) simp
  have b: "ev_eta_change_minutes ?z = Some 0" by simp
  have r': "''passenger'' \<in> set (requested ?z)"
    by (simp add: requested_def example_event_def)
  have y: "case map_of (projr (generate_messages ?z)) ''passenger'' of
      None \<Rightarrow> False | Some m \<Rightarrow> sublist ''TBD'' m"
    using eta_rendering [of ?z 1] b r'
    by (elim exE conjE) simp
  from a x b y str_int_45 show ?thesis by (intro conjI) simp_all
qed

section \<open>Unknown event types, short phrase lists and missing fields\<close>

lemma sublist_passenger_phrase0:
  "sublist (''Attention passengers: '' @ p0 @ '' affecting flight '')
     (passenger_fmt p0 f d e p1 p2 g)"
  unfolding passenger_fmt_def sublist_def
  by (intro exI [of _ "[]"] exI) simp

lemma sublist_passenger_phrases12:
  "sublist (''Estimated delay: '' @ e @ ''. '' @ p1 @ ''. '' @ p2 @ '' Please remain near gate '')
     (passenger_fmt p0 f d e p1 p2 g)"
  unfolding passenger_fmt_def sublist_def
  by (intro exI [of _ "''Attention passengers: '' @ p0 @ '' affecting flight '' @ f @ '' to '' @
        d @ ''. ''"] exI) simp

lemma prefix_pilot_phrase0: "prefix (p0 @ '' for '') (pilot_fmt p0 f s p1 r g e n)"
  unfolding pilot_fmt_def prefix_def
  by (intro exI) simp

lemma sublist_pilot_phrase1:
  "sublist (''. Severity: '' @ s @ ''. '' @ p1 @ '' Runway: '') (pilot_fmt p0 f s p1 r g e n)"
  unfolding pilot_fmt_def sublist_def
  by (intro exI [of _ "p0 @ '' for '' @ f"] exI) simp

lemma sublist_staff_phrases:
  "sublist (''. - Tasks: '' @ p0 @ '', '' @ p1 @ ''. - Comms: '') (staff_fmt t s f g r e p0 p1)"
  unfolding staff_fmt_def sublist_def
  by (intro exI [of _ "''Action required: event='' @ t @ '', severity='' @ s @
        '' for flight '' @ f @ ''. - Gate: '' @ g @ '', Runway: '' @ r @ '', ETA change: '' @
        e"] exI) simp

lemma sublist_passenger_flight_dest:
  "sublist (''affecting flight '' @ f @ '' to '' @ d @ ''. '') (passenger_fmt p0 f d e p1 p2 g)"
  unfolding passenger_fmt_def sublist_def
  by (intro exI [of _ "''Attention passengers: '' @ p0 @ '' ''"] exI) simp

lemma sublist_passenger_gate:
  "sublist (''Please remain near gate '' @ g @ '' for updates.'')
     (passenger_fmt p0 f d e p1 p2 g)"
  unfolding passenger_fmt_def sublist_def
  by (intro exI [of _ "''Attention passengers: '' @ p0 @ '' affecting flight '' @ f @ '' to '' @
        d @ ''. Estimated delay: '' @ e @ ''. '' @ p1 @ ''. '' @ p2 @ '' ''"]
      exI [of _ "'' Thank you for your understanding.''"]) simp

lemma sublist_pilot_flight_severity:
  "sublist ('' for '' @ f @ ''. Severity: '' @ s @ ''. '') (pilot_fmt p0 f s p1 r g e n)"
  unfolding pilot_fmt_def sublist_def
  by (intro exI [of _ p0] exI) simp

lemma sublist_pilot_runway_gate:
  "sublist (''Runway: '' @ r @ ''. Gate: '' @ g @ ''. '') (pilot_fmt p0 f s p1 r g e n)"
  unfolding pilot_fmt_def sublist_def
  by (intro exI [of _ "p0 @ '' for '' @ f @ ''. Severity: '' @ s @ ''. '' @ p1 @ '' ''"] exI)
    simp

lemma sublist_pilot_notes:
  "sublist (''Notes: '' @ n @ ''.'') (pilot_fmt p0 f s p1 r g e n)"
  unfolding pilot_fmt_def sublist_def
  by (intro exI [of _ "p0 @ '' for '' @ f @ ''. Severity: '' @ s @ ''. '' @ p1 @
        '' Runway: '' @ r @ ''. Gate: '' @ g @ ''. ETA change: '' @ e @ ''. ''"]
      exI [of _ "[]"]) simp

lemma sublist_staff_severity_flight:
  "sublist ('', severity='' @ s @ '' for flight '' @ f @ ''. '') (staff_fmt t s f g r e p0 p1)"
  unfolding staff_fmt_def sublist_def
  by (intro exI [of _ "''Action required: event='' @ t"] exI) simp

lemma sublist_staff_gate_runway:
  "sublist (''- Gate: '' @ g @ '', Runway: '' @ r @ '', '') (staff_fmt t s f g r e p0 p1)"
  unfolding staff_fmt_def sublist_def
  by (intro exI [of _ "''Action required: event='' @ t @ '', severity='' @ s @
        '' for flight '' @ f @ ''. ''"] exI) simp

lemma strike_messages:
  "messages RULES (example_event\<lparr>ev_event_type := Some ''strike''\<rparr>) =
     Inr (passenger_fmt ''an operational delay'' ''AI-320'' ''BOM'' ''45 minutes'' '''' '''' ''A7'',
          pilot_fmt ''operational delay in effect'' ''AI-320'' ''medium'' '''' ''TBD'' ''A7''
            ''45 minutes'' ''N/A'',
          staff_fmt ''strike'' ''medium'' ''AI-320'' ''A7'' ''TBD'' ''45 minutes''
            ''coordinate impacted teams'' ''notify affected parties'')"
  unfolding messages_def Let_def
  by (simp add: msg_defs example_event_def py_or_def eta_string_def str_int_45)

text \<open>
  C3 as stated fails: for an event type that is not configured the first phrase slot of the
  passenger message holds the fallback "an operational delay", not the empty string.
\<close>

theorem unknown_event_type_counterexample:
  "''strike'' \<notin> set EVENT_TYPES \<and>
   map_of (projr (generate_messages (example_event\<lparr>ev_event_type := Some ''strike''\<rparr>)))
     ''passenger'' =
     Some ''Attention passengers: an operational delay affecting flight AI-320 to BOM. Estimated delay: 45 minutes. .  Please remain near gate A7 for updates. Thank you for your understanding.'' \<and>
   map_of (projr (generate_messages (example_event\<lparr>ev_event_type := Some ''strike''\<rparr>)))
     ''passenger'' \<noteq>
     Some (strip (passenger_fmt '''' ''AI-320'' ''BOM'' ''45 minutes'' '''' '''' ''A7''))"
proof -
  have "generate_messages (example_event\<lparr>ev_event_type := Some ''strike''\<rparr>) =
      Inr [(''passenger'', passenger_fmt ''an operational delay'' ''AI-320'' ''BOM''
              ''45 minutes'' '''' '''' ''A7'')]"
    unfolding generate_messages_def generate_messages_with_def strike_messages
    by (simp add: requested_def example_event_def)
  then show ?thesis
    by (simp add: EVENT_TYPES_eq strip_passenger_fmt) (simp add: passenger_fmt_def)
qed

text \<open>
  C3, amended: for every event whose event type is not one of the configured types the
  generator does not raise: all three phrase lists are empty, and each phrase slot of each
  message renders as the fallback of its lookup, which is "an operational delay",
  "operational delay in effect", "coordinate impacted teams" and "notify affected parties"
  for the four lookups that give one and the empty string for the other three. So the
  passenger message contains "Attention passengers: an operational delay affecting flight "
  and, after the estimated delay, ". .  Please remain near gate "; the pilot message starts
  with "operational delay in effect for " and has nothing between the severity and
  "Runway: "; the staff message contains
  ". - Tasks: coordinate impacted teams, notify affected parties. - Comms: ". The result maps
  every requested audience to its message.
\<close>

theorem unknown_event_type_fallbacks:
  assumes "t \<notin> set EVENT_TYPES"
    and "ev_event_type ev = Some t \<or> (ev_event_type ev = None \<and> t = '''')"
  shows "dict_get (dict_get (event_types RULES) t []) ''phrases'' [] = [] \<and>
     messages RULES ev =
       Inr (passenger_fmt ''an operational delay'' (py_or (ev_flight_no ev) ''N/A'')
              (py_or (ev_destination ev) ''your destination'')
              (eta_string (ev_eta_change_minutes ev)) '''' ''''
              (py_or (ev_gate ev) ''the assigned gate''),
            pilot_fmt ''operational delay in effect'' (py_or (ev_flight_no ev) ''N/A'')
              (py_or (ev_severity ev) ''medium'') '''' (py_or (ev_runway ev) ''TBD'')
              (py_or (ev_gate ev) ''the assigned gate'')
              (eta_string (ev_eta_change_minutes ev)) (py_or (ev_notes ev) ''N/A''),
            staff_fmt t (py_or (ev_severity ev) ''medium'') (py_or (ev_flight_no ev) ''N/A'')
              (py_or (ev_gate ev) ''the assigned gate'') (py_or (ev_runway ev) ''TBD'')
              (eta_string (ev_eta_change_minutes ev))
              ''coordinate impacted teams'' ''notify affected parties'') \<and>
     (\<exists>outputs. generate_messages ev = Inr outputs) \<and>
     (\<exists>pm plm sm outputs.
        messages RULES ev = Inr (pm, plm, sm) \<and>
        generate_messages ev = Inr outputs \<and>
        map_of outputs ''passenger'' =
          (if ''passenger'' \<in> set (requested ev) then Some pm else None) \<and>
        map_of outputs ''pilot'' =
          (if ''pilot'' \<in> set (requested ev) then Some plm else None) \<and>
        map_of outputs ''staff'' =
          (if ''staff'' \<in> set (requested ev) then Some sm else None) \<and>
        sublist ''Attention passengers: an operational delay affecting flight '' pm \<and>
        sublist (''Estimated delay: '' @ eta_string (ev_eta_change_minutes ev) @
                 ''. .  Please remain near gate '') pm \<and>
        prefix ''operational delay in effect for '' plm \<and>
        sublist (''. Severity: '' @ py_or (ev_severity ev) ''medium'' @ ''.  Runway: '') plm \<and>
        sublist ''. - Tasks: coordinate impacted teams, notify affected parties. - Comms: '' sm)"
proof -
  let ?pm = "passenger_fmt ''an operational delay'' (py_or (ev_flight_no ev) ''N/A'')
              (py_or (ev_destination ev) ''your destination'')
              (eta_string (ev_eta_change_minutes ev)) '''' ''''
              (py_or (ev_gate ev) ''the assigned gate'')"
  let ?plm = "pilot_fmt ''operational delay in effect'' (py_or (ev_flight_no ev) ''N/A'')
              (py_or (ev_severity ev) ''medium'') '''' (py_or (ev_runway ev) ''TBD'')
              (py_or (ev_gate ev) ''the assigned gate'')
              (eta_string (ev_eta_change_minutes ev)) (py_or (ev_notes ev) ''N/A'')"
  let ?sm = "staff_fmt t (py_or (ev_severity ev) ''medium'') (py_or (ev_flight_no ev) ''N/A'')
              (py_or (ev_gate ev) ''the assigned gate'') (py_or (ev_runway ev) ''TBD'')
              (eta_string (ev_eta_change_minutes ev))
              ''coordinate impacted teams'' ''notify affected parties''"
  from assms(1) have t: "t \<notin> {''weather'', ''runway'', ''technical''}"
    by (simp add: EVENT_TYPES_eq)
  then have p: "dict_get (dict_get (event_types RULES) t []) ''phrases'' [] = []"
    by (simp add: RULES_def dict_get_def)
  have m: "messages RULES ev = Inr (?pm, ?plm, ?sm)"
    by (rule messages_RULES_unknown [OF t assms(2)])
  from generate_messages_lookup [OF m] obtain outputs where
    g: "generate_messages ev = Inr outputs"
    and l: "map_of outputs ''passenger'' =
          (if ''passenger'' \<in> set (requested ev) then Some ?pm else None)"
      "map_of outputs ''pilot'' = (if ''pilot'' \<in> set (requested ev) then Some ?plm else None)"
      "map_of outputs ''staff'' = (if ''staff'' \<in> set (requested ev) then Some ?sm else None)"
    by blast
  from g have g': "\<exists>outputs. generate_messages ev = Inr outputs" by (rule exI)
  have s1: "sublist ''Attention passengers: an operational delay affecting flight '' ?pm"
    using sublist_passenger_phrase0 [of "''an operational delay''"] by simp
  have s2: "sublist (''Estimated delay: '' @ eta_string (ev_eta_change_minutes ev) @
                 ''. .  Please remain near gate '') ?pm"
    using sublist_passenger_phrases12 [of _ "''''" "''''" "''an operational delay''"] by simp
  have s3: "prefix ''operational delay in effect for '' ?plm"
    using prefix_pilot_phrase0 [of "''operational delay in effect''"] by simp
  have s4: "sublist (''. Severity: '' @ py_or (ev_severity ev) ''medium'' @ ''.  Runway: '') ?plm"
    using sublist_pilot_phrase1 [of _ "''''" "''operational delay in effect''"] by simp
  have s5: "sublist ''. - Tasks: coordinate impacted teams, notify affected parties. - Comms: ''
      ?sm"
    using sublist_staff_phrases [of "''coordinate impacted teams''" "''notify affected parties''"]
    by simp
  have e: "\<exists>pm plm sm outputs.
        messages RULES ev = Inr (pm, plm, sm) \<and>
        generate_messages ev = Inr outputs \<and>
        map_of outputs ''passenger'' =
          (if ''passenger'' \<in> set (requested ev) then Some pm else None) \<and>
        map_of outputs ''pilot'' =
          (if ''pilot'' \<in> set (requested ev) then Some plm else None) \<and>
        map_of outputs ''staff'' =
          (if ''staff'' \<in> set (requested ev) then Some sm else None) \<and>
        sublist ''Attention passengers: an operational delay affecting flight '' pm \<and>
        sublist (''Estimated delay: '' @ eta_string (ev_eta_change_minutes ev) @
                 ''. .  Please remain near gate '') pm \<and>
        prefix ''operational delay in effect for '' plm \<and>
        sublist (''. Severity: '' @ py_or (ev_severity ev) ''medium'' @ ''.  Runway: '') plm \<and>
        sublist ''. - Tasks: coordinate impacted teams, notify affected parties. - Comms: '' sm"
    apply (rule exI [of _ ?pm], rule exI [of _ ?plm], rule exI [of _ ?sm])
    apply (rule exI [of _ outputs])
    by (intro conjI m g l s1 s2 s3 s4 s5)
  from p m g' e show ?thesis by (intro conjI)
qed

theorem unknown_event_type_fallbacks_witness:
  "''strike'' \<notin> set EVENT_TYPES \<and>
   ev_event_type (example_event\<lparr>ev_event_type := Some ''strike''\<rparr>) = Some ''strike'' \<and>
   dict_get (dict_get (event_types RULES) ''strike'' []) ''phrases'' [] = [] \<and>
   (case generate_messages (example_event\<lparr>ev_event_type := Some ''strike''\<rparr>) of
      Inl e \<Rightarrow> False | Inr outputs \<Rightarrow> True)"
proof -
  let ?e = "example_event\<lparr>ev_event_type := Some ''strike''\<rparr>"
  have a: "''strike'' \<notin> set EVENT_TYPES" by (simp add: EVENT_TYPES_eq)
  have b: "ev_event_type ?e = Some ''strike''" by simp
  then have b': "ev_event_type ?e = Some ''strike'' \<or> (ev_event_type ?e = None \<and> ''strike'' = '''')"
    by (rule disjI1)
  note t = unknown_event_type_fallbacks [OF a b']
  from t have p: "dict_get (dict_get (event_types RULES) ''strike'' []) ''phrases'' [] = []"
    by (rule conjunct1)
  from t have "\<exists>outputs. generate_messages ?e = Inr outputs"
    by (elim conjE)
  then have i: "case generate_messages ?e of Inl e \<Rightarrow> False | Inr outputs \<Rightarrow> True"
    by (elim exE) simp
  from a b p i show ?thesis by (intro conjI)
qed

text \<open>
  C6 as stated fails: the lookup the generator makes at position 0 of the passenger
  phrases returns "an operational delay" on a list that is too short, not the empty
  string.
\<close>

theorem lookup_default_counterexample:
  "int (length ([] :: string list)) \<le> 0 \<and>
   safe [] 0 ''an operational delay'' = Inr ''an operational delay'' \<and>
   safe [] 0 ''an operational delay'' \<noteq> Inr ''''"
  by (simp add: safe_def getitem_def)

text \<open>
  C6, amended: for every phrase list and every position index, a lookup at a position
  beyond the end of the list (where the plain subscript raises IndexError) returns the
  default of the lookup instead of failing: the empty string when the call gives no
  default, the given fallback phrase otherwise. So the three messages and the generator
  return a result for every phrase list, however short, and every rule table.
\<close>

theorem lookup_beyond_end_returns_default:
  "(int (length lst) \<le> idx \<longrightarrow>
      getitem lst idx = Inl IndexError \<and> safe lst idx '''' = Inr '''' \<and>
      safe lst idx dflt = Inr dflt) \<and>
   (\<exists>v. safe lst idx dflt = Inr v) \<and>
   (\<exists>m. passenger_msg passenger_p flight_no dest eta_str gate = Inr m) \<and>
   (\<exists>m. pilot_msg pilot_p flight_no severity runway gate eta_str notes = Inr m) \<and>
   (\<exists>m. staff_msg staff_p etype severity flight_no gate runway eta_str = Inr m) \<and>
   (\<exists>outputs. generate_messages_with R ev = Inr outputs)"
proof -
  have a: "int (length lst) \<le> idx \<longrightarrow>
      getitem lst idx = Inl IndexError \<and> safe lst idx '''' = Inr '''' \<and>
      safe lst idx dflt = Inr dflt"
    by (simp add: getitem_beyond safe_beyond)
  have b: "\<exists>m. passenger_msg passenger_p flight_no dest eta_str gate = Inr m"
    by (simp add: passenger_msg_def safe_def split: sum.splits)
  have c: "\<exists>m. pilot_msg pilot_p flight_no severity runway gate eta_str notes = Inr m"
    by (simp add: pilot_msg_def safe_def split: sum.splits)
  have d: "\<exists>m. staff_msg staff_p etype severity flight_no gate runway eta_str = Inr m"
    by (simp add: staff_msg_def safe_def split: sum.splits)
  from a safe_total b c d generate_messages_with_total show ?thesis
    by (intro conjI)
qed

theorem lookup_beyond_end_returns_default_witness:
  "int (length [''for your safety'']) \<le> 1 \<and>
   getitem [''for your safety''] 1 = Inl IndexError \<and>
   safe [''for your safety''] 1 '''' = Inr '''' \<and>
   safe [''for your safety''] 1 ''notify affected parties'' = Inr ''notify affected parties''"
proof -
  have h: "int (length [''for your safety'']) \<le> 1" by simp
  have "int (length [''for your safety'']) \<le> 1 \<longrightarrow>
      getitem [''for your safety''] 1 = Inl IndexError \<and>
      safe [''for your safety''] 1 '''' = Inr '''' \<and>
      safe [''for your safety''] 1 ''notify affected parties'' = Inr ''notify affected parties''"
    by (rule conjunct1 [OF lookup_beyond_end_returns_default
          [of "[''for your safety'']" 1 "''notify affected parties''"]])
  from mp [OF this h] h show ?thesis by (intro conjI) (elim conjE, assumption)+
qed

text \<open>
  C5: for every event the three messages are the three templates filled, for each display
  field, with the value of the field or, when the field is absent or empty, with its
  placeholder: "N/A" for the flight number, "your destination" for the destination,
  "the assigned gate" for the gate, "TBD" for the runway, "N/A" for the notes and
  "medium" for the severity. That text occurs in the generated messages: the passenger
  message contains "affecting flight F to D. " and "Please remain near gate G for updates.",
  the pilot message contains " for F. Severity: S. ", "Runway: RW. Gate: G. " and
  "Notes: N.", the staff message contains ", severity=S for flight F. " and
  "- Gate: G, Runway: RW, ", where each letter is the field or its placeholder. The result
  maps every requested audience to its message.
\<close>

theorem placeholders_for_missing_fields:
  fixes ev :: event
  defines "F \<equiv> (case ev_flight_no ev of None \<Rightarrow> ''N/A''
                  | Some s \<Rightarrow> if s = [] then ''N/A'' else s)"
    and "D \<equiv> (case ev_destination ev of None \<Rightarrow> ''your destination''
                | Some s \<Rightarrow> if s = [] then ''your destination'' else s)"
    and "G \<equiv> (case ev_gate ev of None \<Rightarrow> ''the assigned gate''
                | Some s \<Rightarrow> if s = [] then ''the assigned gate'' else s)"
    and "RW \<equiv> (case ev_runway ev of None \<Rightarrow> ''TBD''
                 | Some s \<Rightarrow> if s = [] then ''TBD'' else s)"
    and "N \<equiv> (case ev_notes ev of None \<Rightarrow> ''N/A''
                | Some s \<Rightarrow> if s = [] then ''N/A'' else s)"
    and "S \<equiv> (case ev_severity ev of None \<Rightarrow> ''medium''
                | Some s \<Rightarrow> if s = [] then ''medium'' else s)"
    and "E \<equiv> eta_string (ev_eta_change_minutes ev)"
    and "T \<equiv> (case ev_event_type ev of None \<Rightarrow> '''' | Some t \<Rightarrow> t)"
  shows "\<exists>p0 p1 p2 q0 q1 s0 s1 pm plm sm outputs.
     pm = passenger_fmt p0 F D E p1 p2 G \<and>
     plm = pilot_fmt q0 F S q1 RW G E N \<and>
     sm = staff_fmt T S F G RW E s0 s1 \<and>
     messages RULES ev = Inr (pm, plm, sm) \<and>
     generate_messages ev = Inr outputs \<and>
     map_of outputs ''passenger'' =
       (if ''passenger'' \<in> set (requested ev) then Some pm else None) \<and>
     map_of outputs ''pilot'' = (if ''pilot'' \<in> set (requested ev) then Some plm else None) \<and>
     map_of outputs ''staff'' = (if ''staff'' \<in> set (requested ev) then Some sm else None) \<and>
     sublist (''affecting flight '' @ F @ '' to '' @ D @ ''. '') pm \<and>
     sublist (''Please remain near gate '' @ G @ '' for updates.'') pm \<and>
     sublist ('' for '' @ F @ ''. Severity: '' @ S @ ''. '') plm \<and>
     sublist (''Runway: '' @ RW @ ''. Gate: '' @ G @ ''. '') plm \<and>
     sublist (''Notes: '' @ N @ ''.'') plm \<and>
     sublist ('', severity='' @ S @ '' for flight '' @ F @ ''. '') sm \<and>
     sublist (''- Gate: '' @ G @ '', Runway: '' @ RW @ '', '') sm"
proof -
  from messages_RULES [of ev] obtain p0 p1 p2 q0 q1 s0 s1 where
    m: "messages RULES ev =
       Inr (passenger_fmt p0 F D E p1 p2 G, pilot_fmt q0 F S q1 RW G E N,
            staff_fmt T S F G RW E s0 s1)"
    unfolding py_or_def F_def D_def G_def RW_def N_def S_def E_def T_def by blast
  from generate_messages_lookup [OF m] obtain outputs where
    g: "generate_messages ev = Inr outputs"
    and l: "map_of outputs ''passenger'' =
       (if ''passenger'' \<in> set (requested ev) then Some (passenger_fmt p0 F D E p1 p2 G)
        else None)"
      "map_of outputs ''pilot'' =
       (if ''pilot'' \<in> set (requested ev) then Some (pilot_fmt q0 F S q1 RW G E N) else None)"
      "map_of outputs ''staff'' =
       (if ''staff'' \<in> set (requested ev) then Some (staff_fmt T S F G RW E s0 s1) else None)"
    by blast
  show ?thesis
    apply (rule exI [of _ p0], rule exI [of _ p1], rule exI [of _ p2])
    apply (rule exI [of _ q0], rule exI [of _ q1], rule exI [of _ s0], rule exI [of _ s1])
    apply (rule exI [of _ "passenger_fmt p0 F D E p1 p2 G"])
    apply (rule exI [of _ "pilot_fmt q0 F S q1 RW G E N"])
    apply (rule exI [of _ "staff_fmt T S F G RW E s0 s1"])
    apply (rule exI [of _ outputs])
    by (intro conjI refl m g l
        sublist_passenger_flight_dest sublist_passenger_gate sublist_pilot_flight_severity
        sublist_pilot_runway_gate sublist_pilot_notes sublist_staff_severity_flight
        sublist_staff_gate_runway)
qed

theorem placeholders_for_missing_fields_witness:
  "(case map_of (projr (generate_messages
        (example_event\<lparr>ev_flight_no := None, ev_destination := Some [], ev_gate := None,
           ev_audiences := None\<rparr>))) ''passenger'' of
      None \<Rightarrow> False
    | Some m \<Rightarrow> sublist ''affecting flight N/A to your destination. '' m \<and>
        sublist ''Please remain near gate the assigned gate for updates.'' m) \<and>
   (case map_of (projr (generate_messages
        (example_event\<lparr>ev_flight_no := None, ev_destination := Some [], ev_gate := None,
           ev_audiences := None\<rparr>))) ''pilot'' of
      None \<Rightarrow> False
    | Some m \<Rightarrow> sublist '' for N/A. Severity: medium. '' m \<and>
        sublist ''Runway: TBD. Gate: the assigned gate. '' m \<and> sublist ''Notes: N/A.'' m) \<and>
   (case map_of (projr (generate_messages
        (example_event\<lparr>ev_flight_no := None, ev_destination := Some [], ev_gate := None,
           ev_audiences := None\<rparr>))) ''staff'' of
      None \<Rightarrow> False
    | Some m \<Rightarrow> sublist '', severity=medium for flight N/A. '' m \<and>
        sublist ''- Gate: the assigned gate, Runway: TBD, '' m)"
  using placeholders_for_missing_fields
    [of "example_event\<lparr>ev_flight_no := None, ev_destination := Some [], ev_gate := None,
           ev_audiences := None\<rparr>"]
  by (elim exE conjE) (simp add: requested_def example_event_def)

end
